theory Spec2Isabelle
  imports Main "HOL-Library.Word"
begin

section \<open>Bytes, errors and the primitive wire encodings\<close>

text \<open>
  A Go \<open>[]byte\<close> of the binary wire format is a list of 8-bit words. A Go \<open>*big.Int\<close>
  is an \<open>int option\<close> (\<open>None\<close> is the nil pointer). The text formats (query messages and
  fragments) are byte strings as well; they are modelled as \<open>string\<close>, whose characters are
  bytes.
\<close>

type_synonym byte = "8 word"

text \<open>
  The error values of the package: \<open>errors.New(msg)\<close>, \<open>newOtrError(msg)\<close> and the
  package-level error variables.
\<close>

datatype error =
    ErrorsNew string
  | OtrError string
  | errShortRandomRead
  | errUnexpectedMessage
  | errInvalidVersion
  | errInvalidOTRMessage
  | errReceivedMessageForOtherInstance
  | GobError string

text \<open>A run-time panic of the Go program.\<close>

datatype panic = IndexOutOfRange | SliceBoundsOutOfRange | NilPointerDereference

text \<open>Big-endian reading of a byte string, as \<open>binary.BigEndian\<close> and \<open>big.Int.SetBytes\<close> do.\<close>

definition bytesToNat :: "byte list \<Rightarrow> nat" where
  "bytesToNat bs = foldl (\<lambda>a b. a * 256 + unat b) 0 bs"

text \<open>
  Modelled from the spec: the helpers \<open>extractWord\<close>, \<open>extractData\<close> and \<open>extractMPI\<close> are
  not among the source files. The spec gives the encodings: WORD is 4 bytes big-endian;
  DATA is a 4-byte length and then that many bytes; MPI is a 4-byte length \<open>n\<close> and then the
  \<open>n\<close> bytes of the integer, big-endian; reading fails when a length field exceeds the
  remaining input. Each returns the rest of the input, the value and an ok flag.
\<close>

definition extractWord :: "byte list \<Rightarrow> byte list \<times> nat \<times> bool" where
  "extractWord d = (if length d < 4 then ([], 0, False) else (drop 4 d, bytesToNat (take 4 d), True))"

definition extractData :: "byte list \<Rightarrow> byte list \<times> byte list \<times> bool" where
  "extractData d =
     (case extractWord d of
        (newPoint, n, ok) \<Rightarrow>
          if \<not> ok \<or> length newPoint < n then (d, [], False)
          else (drop n newPoint, take n newPoint, True))"

definition extractMPI :: "byte list \<Rightarrow> byte list \<times> int option \<times> bool" where
  "extractMPI d =
     (case extractWord d of
        (rest, mpiLen, ok) \<Rightarrow>
          if \<not> ok \<or> length rest < mpiLen then ([], None, False)
          else (drop mpiLen rest, Some (int (bytesToNat (take mpiLen rest))), True))"

text \<open>
  Dereferencing a \<open>*big.Int\<close> for a comparison. The callers below compare a value only
  after \<open>extractMPI\<close> has reported ok, where the pointer is not nil; the nil pointer is
  read as 0 here and never reached.
\<close>

definition deref :: "int option \<Rightarrow> int" where
  "deref v = (case v of None \<Rightarrow> 0 | Some n \<Rightarrow> n)"

text \<open>
  Modelled from the spec: the group constants and the comparison helpers \<open>lt\<close>, \<open>gt\<close>,
  \<open>eq\<close> and \<open>isGroupElement\<close> are not among the source files. The spec fixes \<open>p\<close> as the
  prime of the 1536-bit MODP group and a group element as a value in \<open>[2, p-2]\<close>; \<open>g1\<close> is
  the generator 2.
\<close>

definition otrPrime :: int where
  "otrPrime = 0xFFFFFFFFFFFFFFFFC90FDAA22168C234C4C6628B80DC1CD129024E088A67CC74020BBEA63B139B22514A08798E3404DDEF9519B3CD3A431B302B0A6DF25F14374FE1356D6D51C245E485B576625E7EC6F44C42E9A637ED6B0BFF5CB6F406B7EDEE386BFB5A899FA5AE9F24117C4B1FE649286651ECE45B3DC2007CB8A163BF0598DA48361C55D39A69163FA8FD24CF5F83655D23DCA3AD961C62F356208552BB9ED529077096966D670C354E4ABC9804F1746C08CA237327FFFFFFFFFFFFFFFF"

definition g1 :: int where
  "g1 = 2"

definition pMinusTwo :: int where
  "pMinusTwo = otrPrime - 2"

definition lt :: "int \<Rightarrow> int \<Rightarrow> bool" where
  "lt l r = (l < r)"

definition gt :: "int \<Rightarrow> int \<Rightarrow> bool" where
  "gt l r = (l > r)"

definition eq :: "int \<Rightarrow> int \<Rightarrow> bool" where
  "eq l r = (l = r)"

definition isGroupElement :: "int \<Rightarrow> bool" where
  "isGroupElement n = (g1 \<le> n \<and> n \<le> pMinusTwo)"

section \<open>The AKE wire messages\<close>

record dhMessage =
  protocolVersion :: nat
  needInstanceTag :: bool
  senderInstanceTag :: "32 word"
  receiverInstanceTag :: "32 word"

record dhCommit = dhMessage +
  gx :: "int option"
  dhCommit_encryptedGx :: "byte list"
  dhCommit_hashedGx :: "byte list"

record dhKey = dhMessage +
  gy :: "int option"

record revealSig = dhMessage +
  revealSig_r :: "byte list"
  revealSig_encryptedSig :: "byte list"
  revealSig_macSig :: "byte list"

record sig = dhMessage +
  sig_encryptedSig :: "byte list"
  sig_macSig :: "byte list"

text \<open>
  \<open>copy(dst[:], src)\<close> into a fixed-size array: the first \<open>min (len dst) (len src)\<close> bytes
  are overwritten, the rest of \<open>dst\<close> stays.
\<close>

definition copyInto :: "byte list \<Rightarrow> byte list \<Rightarrow> byte list" where
  "copyInto dst src = take (length dst) src @ drop (length src) dst"

text \<open>
  Each \<open>deserialize\<close> method mutates its receiver and returns an error; the model returns
  the receiver after the call and the error (\<open>None\<close> is nil).
\<close>

definition dhCommit_deserialize :: "dhCommit \<Rightarrow> byte list \<Rightarrow> dhCommit \<times> error option" where
  "dhCommit_deserialize c msg =
     (case extractData msg of
        (msg', e, ok1) \<Rightarrow>
          let c1 = c\<lparr>dhCommit_encryptedGx := e\<rparr> in
          (case extractData msg' of
             (_, h, ok2) \<Rightarrow>
               if \<not> ok1 \<or> \<not> ok2 then (c1, Some (ErrorsNew ''otr: corrupt DH commit message''))
               else (c1\<lparr>dhCommit_hashedGx := copyInto (dhCommit_hashedGx c1) h\<rparr>, None)))"

definition dhKey_deserialize :: "dhKey \<Rightarrow> byte list \<Rightarrow> dhKey \<times> error option" where
  "dhKey_deserialize c msg =
     (case extractMPI msg of
        (_, y, ok) \<Rightarrow>
          if \<not> ok then (c, Some (ErrorsNew ''otr: corrupt DH key message''))
          else if lt (deref y) g1 \<or> gt (deref y) pMinusTwo
            then (c, Some (ErrorsNew ''otr: DH value out of range''))
          else (c\<lparr>gy := y\<rparr>, None))"

definition revealSig_deserialize :: "revealSig \<Rightarrow> byte list \<Rightarrow> revealSig \<times> error option" where
  "revealSig_deserialize c msg =
     (case extractData msg of
        (in', r, ok1) \<Rightarrow>
          (case extractData in' of
             (macSig, encryptedSig, ok2) \<Rightarrow>
               if \<not> ok1 \<or> \<not> ok2 \<or> length macSig \<noteq> 20
                 then (c, Some (ErrorsNew ''otr: corrupt reveal signature message''))
               else (c\<lparr>revealSig_r := copyInto (revealSig_r c) r,
                        revealSig_encryptedSig := encryptedSig,
                        revealSig_macSig := macSig\<rparr>, None)))"

definition sig_deserialize :: "sig \<Rightarrow> byte list \<Rightarrow> sig \<times> error option" where
  "sig_deserialize c msg =
     (case extractData msg of
        (macSig, encryptedSig, ok) \<Rightarrow>
          if \<not> ok \<or> length macSig \<noteq> 20
            then (c, Some (ErrorsNew ''otr: corrupt signature message''))
          else (c\<lparr>sig_encryptedSig := encryptedSig, sig_macSig := macSig\<rparr>, None))"

section \<open>The data message body\<close>

record tlv =
  tlvType :: nat
  tlvLength :: nat
  tlvValue :: "byte list"

record dataMsg =
  nul :: byte
  tlvs :: "tlv list"

text \<open>
  A Go slice is its elements together with the spare part of its backing array, the
  bytes between its length and its capacity: indexing \<open>msg[0]\<close> is bounded by the length,
  a slice expression \<open>s[i:j]\<close> by the capacity. The model takes the elements and the spare
  bytes (\<open>spare = []\<close> when the capacity is the length).

  The loop of \<open>dataMsg.deserialize\<close>, with the receiver's \<open>tlvs\<close> as an accumulator. The
  slice expressions \<open>tlvsBytes[index : index+2]\<close> and \<open>tlvsBytes[index+2 : index+4]\<close> are
  evaluated before any check against the length: they panic when their upper bound is
  beyond the capacity and read spare bytes when it is beyond the length only.
\<close>

function dataMsg_loop ::
  "byte list \<Rightarrow> byte list \<Rightarrow> nat \<Rightarrow> tlv list \<Rightarrow> panic + (tlv list \<times> error option)" where
  "dataMsg_loop tlvsBytes spare index ts =
     (if index < length tlvsBytes then
        if length tlvsBytes + length spare < index + 2 then Inl SliceBoundsOutOfRange
        else if length tlvsBytes + length spare < index + 4 then Inl SliceBoundsOutOfRange
        else
          let ty = bytesToNat (take 2 (drop index (tlvsBytes @ spare)));
              len = bytesToNat (take 2 (drop (index + 2) (tlvsBytes @ spare)));
              endOfTLV = index + 4 + len
          in if endOfTLV > length tlvsBytes
               then Inr (ts, Some (ErrorsNew ''otr: wrong tlv length''))
             else dataMsg_loop tlvsBytes spare endOfTLV
                    (ts @ [\<lparr>tlvType = ty, tlvLength = len,
                             tlvValue = take len (drop (index + 4) tlvsBytes)\<rparr>])
      else Inr (ts, None))"
  by pat_completeness auto
termination
  by (relation "measure (\<lambda>(tlvsBytes, spare, index, ts). length tlvsBytes - index)") auto

declare dataMsg_loop.simps [simp del]

text \<open>
  \<open>msg[0]\<close> is read before any check of the length: on the empty slice it panics, whatever
  the capacity. \<open>tlvsBytes = msg[1:]\<close> shares the spare bytes of \<open>msg\<close>.
\<close>

definition dataMsg_deserialize ::
  "dataMsg \<Rightarrow> byte list \<Rightarrow> byte list \<Rightarrow> panic + (dataMsg \<times> error option)" where
  "dataMsg_deserialize c msg spare =
     (case msg of
        [] \<Rightarrow> Inl IndexOutOfRange
      | b # tlvsBytes \<Rightarrow>
          if b \<noteq> 0 then Inr (c, Some (ErrorsNew ''otr: corrupt data message''))
          else
            (case dataMsg_loop tlvsBytes spare 0 (tlvs c) of
               Inl pn \<Rightarrow> Inl pn
             | Inr (ts, err) \<Rightarrow> Inr (c\<lparr>nul := b, tlvs := ts\<rparr>, err)))"

definition appendShort :: "byte list \<Rightarrow> nat \<Rightarrow> byte list" where
  "appendShort out v = out @ [of_nat (v div 256), of_nat v]"

definition dataMsg_serialize :: "dataMsg \<Rightarrow> byte list" where
  "dataMsg_serialize c =
     foldl (\<lambda>out t. appendShort (appendShort out (tlvType t)) (tlvLength t) @ tlvValue t)
       [0] (tlvs c)"

section \<open>The AKE context and the conversation\<close>

text \<open>
  Modelled from the spec: the types \<open>akeKeys\<close>, \<open>dhKeyPair\<close>, \<open>keyManagementContext\<close>,
  \<open>authState\<close> and \<open>smp\<close> and the \<open>wipe\<close> helpers are not among the source files. A key
  bundle holds \<open>c\<close> (16 bytes), \<open>m1\<close> and \<open>m2\<close> (32 bytes each); a DH key pair holds a public
  and a private value; the key-management context holds the fields the source files use;
  the SMP context holds the state, the secret and the intermediates \<open>s1\<close>, \<open>s2\<close>, \<open>s3\<close>.
  Wiping overwrites with zeros.
\<close>

record akeKeys =
  akeKeys_c :: "byte list"
  akeKeys_m1 :: "byte list"
  akeKeys_m2 :: "byte list"

record dhKeyPair =
  pub :: "int option"
  priv :: "int option"

record keyManagementContext =
  ourKeyID :: "32 word"
  theirKeyID :: "32 word"
  ourCurrentDHKeys :: dhKeyPair
  ourPreviousDHKeys :: dhKeyPair
  theirCurrentDHPubKey :: "int option"

datatype authState =
  authStateNone | authStateAwaitingDHKey | authStateAwaitingRevealSig | authStateAwaitingSig

record ake =
  secretExponent :: "int option"
  ourPublicValue :: "int option"
  theirPublicValue :: "int option"
  ake_r :: "byte list"
  encryptedGx :: "byte list"
  hashedGx :: "byte list"
  revealKey :: akeKeys
  sigKey :: akeKeys
  ake_state :: authState
  ake_keys :: keyManagementContext

datatype smpState = smpStateExpect1 | smpStateExpect2 | smpStateExpect3 | smpStateExpect4

record smp =
  smp_state :: smpState
  secret :: "int option"
  s1 :: "int list"
  s2 :: "int list"
  s3 :: "int list"

datatype msgState = plainText | encrypted | finished

datatype otrVersion = otrV2 | otrV3

datatype policy = allowV1 | allowV2 | allowV3

record fragmentationContext =
  frag :: string
  currentIndex :: nat
  currentLen :: nat

text \<open>
  The fields of \<open>Conversation\<close> that the functions below read or write. \<open>version\<close> is an
  interface value and \<open>ake\<close> a pointer: \<open>None\<close> is nil.
\<close>

record Conversation =
  version :: "otrVersion option"
  msgState :: msgState
  ourInstanceTag :: "32 word"
  theirInstanceTag :: "32 word"
  ssid :: "byte list"
  ake :: "ake option"
  smp :: smp
  keys :: keyManagementContext
  Policies :: "policy set"
  fragmentSize :: nat
  fragmentationContext :: fragmentationContext

definition emptyDhKey :: dhKey where
  "emptyDhKey = \<lparr>protocolVersion = 0, needInstanceTag = False, senderInstanceTag = 0,
                  receiverInstanceTag = 0, gy = None\<rparr>"

text \<open>
  \<open>processDHKey\<close> returns \<open>isSame\<close> and an error and may write \<open>c.ake.theirPublicValue\<close>;
  reading \<open>c.ake\<close> when it is nil panics.
\<close>

definition processDHKey :: "Conversation \<Rightarrow> byte list \<Rightarrow> panic + (Conversation \<times> bool \<times> error option)" where
  "processDHKey c msg =
     (case dhKey_deserialize emptyDhKey msg of
        (dhKeyMsg, Some err) \<Rightarrow> Inr (c, False, Some err)
      | (dhKeyMsg, None) \<Rightarrow>
          if \<not> isGroupElement (deref (gy dhKeyMsg))
            then Inr (c, False, Some (OtrError ''DH value out of range''))
          else
            (case ake c of
               None \<Rightarrow> Inl NilPointerDereference
             | Some a \<Rightarrow>
                 (case theirPublicValue a of
                    Some t \<Rightarrow> Inr (c, eq t (deref (gy dhKeyMsg)), None)
                  | None \<Rightarrow>
                      Inr (c\<lparr>ake := Some (a\<lparr>theirPublicValue := gy dhKeyMsg\<rparr>)\<rparr>, False, None))))"

definition extractGx :: "byte list \<Rightarrow> int option \<times> error option" where
  "extractGx decryptedGx =
     (case extractMPI decryptedGx of
        (newData, x, ok) \<Rightarrow>
          if \<not> ok \<or> length newData > 0 then (x, Some (OtrError ''gx corrupt after decryption''))
          else if \<not> isGroupElement (deref x) then (x, Some (OtrError ''DH value out of range''))
          else (x, None))"

section \<open>Ending a conversation\<close>

datatype securityEvent = GoneInsecure

definition wipeBigInt :: "int option \<Rightarrow> int option" where
  "wipeBigInt k = (case k of None \<Rightarrow> None | Some _ \<Rightarrow> Some 0)"

definition dhKeyPair_wipe :: "dhKeyPair \<Rightarrow> dhKeyPair" where
  "dhKeyPair_wipe k = k\<lparr>pub := wipeBigInt (pub k), priv := wipeBigInt (priv k)\<rparr>"

definition smp_wipe :: "smp \<Rightarrow> smp" where
  "smp_wipe x = x\<lparr>secret := wipeBigInt (secret x), s1 := map (\<lambda>_. 0) (s1 x),
                  s2 := map (\<lambda>_. 0) (s2 x), s3 := map (\<lambda>_. 0) (s3 x)\<rparr>"

text \<open>
  \<open>End\<close> returns the messages to send and an error; the model adds the conversation after
  the call and the security events signalled. \<open>createSerializedDataMessage\<close> is not among
  the source files and builds the encrypted disconnect message: it is the parameter
  \<open>csdm\<close>, called only when the conversation is encrypted.
\<close>

definition End ::
  "(Conversation \<Rightarrow> Conversation \<times> string list \<times> error option) \<Rightarrow> Conversation
    \<Rightarrow> Conversation \<times> string list \<times> error option \<times> securityEvent list" where
  "End csdm c =
     (let previousMsgState = msgState c;
          (c1, toSend, err) =
             (if msgState c = encrypted then csdm (c\<lparr>smp := smp_wipe (smp c)\<rparr>)
              else (c, [], None));
          c2 = c1\<lparr>msgState := plainText\<rparr>;
          c3 = c2\<lparr>keys := (keys c2)\<lparr>ourCurrentDHKeys := dhKeyPair_wipe (ourCurrentDHKeys (keys c2))\<rparr>\<rparr>;
          c4 = c3\<lparr>keys := (keys c3)\<lparr>ourPreviousDHKeys := dhKeyPair_wipe (ourPreviousDHKeys (keys c3))\<rparr>\<rparr>;
          c5 = c4\<lparr>keys := (keys c4)\<lparr>theirCurrentDHPubKey := wipeBigInt (theirCurrentDHPubKey (keys c4))\<rparr>\<rparr>
      in (c5, toSend, err, if previousMsgState = encrypted then [GoneInsecure] else []))"

section \<open>Persistence of the AKE context\<close>

text \<open>
  The gob stream as the sequence of the values written to it, each with its Go type: a
  \<open>*big.Int\<close>, a byte array \<open>[n]byte\<close>, a byte slice \<open>[]byte\<close>, or a key bundle.
  \<open>Decode\<close> into a variable takes the next value of the stream and fails when the stream
  is empty or the value's type is not the variable's (an array also needs the variable's
  length).
\<close>

datatype gobValue =
    GobBigInt int
  | GobByteArray "byte list"
  | GobByteSlice "byte list"
  | GobAkeKeys akeKeys

definition encodeOptional :: "int option \<Rightarrow> gobValue list" where
  "encodeOptional v = (case v of None \<Rightarrow> [] | Some n \<Rightarrow> [GobBigInt n])"

definition ake_GobEncode :: "ake \<Rightarrow> gobValue list \<times> error option" where
  "ake_GobEncode c =
     (encodeOptional (secretExponent c) @ encodeOptional (ourPublicValue c)
        @ encodeOptional (theirPublicValue c)
        @ [GobByteArray (ake_r c), GobByteSlice (encryptedGx c), GobByteArray (hashedGx c),
           GobAkeKeys (revealKey c), GobAkeKeys (sigKey c)], None)"

definition decodeBigInt :: "gobValue list \<Rightarrow> error + (int \<times> gobValue list)" where
  "decodeBigInt buf =
     (case buf of
        [] \<Rightarrow> Inl (GobError ''EOF'')
      | GobBigInt n # rest \<Rightarrow> Inr (n, rest)
      | _ # rest \<Rightarrow> Inl (GobError ''gob: type mismatch''))"

definition decodeByteSlice :: "gobValue list \<Rightarrow> error + (byte list \<times> gobValue list)" where
  "decodeByteSlice buf =
     (case buf of
        [] \<Rightarrow> Inl (GobError ''EOF'')
      | GobByteSlice b # rest \<Rightarrow> Inr (b, rest)
      | _ # rest \<Rightarrow> Inl (GobError ''gob: type mismatch''))"

definition decodeByteArray :: "nat \<Rightarrow> gobValue list \<Rightarrow> error + (byte list \<times> gobValue list)" where
  "decodeByteArray n buf =
     (case buf of
        [] \<Rightarrow> Inl (GobError ''EOF'')
      | GobByteArray b # rest \<Rightarrow>
          if length b = n then Inr (b, rest) else Inl (GobError ''gob: type mismatch'')
      | _ # rest \<Rightarrow> Inl (GobError ''gob: type mismatch''))"

definition decodeAkeKeys :: "gobValue list \<Rightarrow> error + (akeKeys \<times> gobValue list)" where
  "decodeAkeKeys buf =
     (case buf of
        [] \<Rightarrow> Inl (GobError ''EOF'')
      | GobAkeKeys k # rest \<Rightarrow> Inr (k, rest)
      | _ # rest \<Rightarrow> Inl (GobError ''gob: type mismatch''))"

text \<open>
  \<open>GobDecode\<close> writes each field as soon as it is decoded and returns at the first error:
  the model returns the context as it is then. The source decodes seven values and has
  no \<open>Decode\<close> of \<open>c.r\<close>.
\<close>

definition ake_GobDecode :: "ake \<Rightarrow> gobValue list \<Rightarrow> ake \<times> error option" where
  "ake_GobDecode c buf =
     (case decodeBigInt buf of Inl e \<Rightarrow> (c, Some e) | Inr (v1, b1) \<Rightarrow>
     (let c1 = c\<lparr>secretExponent := Some v1\<rparr> in
     (case decodeBigInt b1 of Inl e \<Rightarrow> (c1, Some e) | Inr (v2, b2) \<Rightarrow>
     (let c2 = c1\<lparr>ourPublicValue := Some v2\<rparr> in
     (case decodeBigInt b2 of Inl e \<Rightarrow> (c2, Some e) | Inr (v3, b3) \<Rightarrow>
     (let c3 = c2\<lparr>theirPublicValue := Some v3\<rparr> in
     (case decodeByteSlice b3 of Inl e \<Rightarrow> (c3, Some e) | Inr (v4, b4) \<Rightarrow>
     (let c4 = c3\<lparr>encryptedGx := v4\<rparr> in
     (case decodeByteArray 32 b4 of Inl e \<Rightarrow> (c4, Some e) | Inr (v5, b5) \<Rightarrow>
     (let c5 = c4\<lparr>hashedGx := v5\<rparr> in
     (case decodeAkeKeys b5 of Inl e \<Rightarrow> (c5, Some e) | Inr (v6, b6) \<Rightarrow>
     (let c6 = c5\<lparr>revealKey := v6\<rparr> in
     (case decodeAkeKeys b6 of Inl e \<Rightarrow> (c6, Some e) | Inr (v7, b7) \<Rightarrow>
        (c6\<lparr>sigKey := v7\<rparr>, None))))))))))))))"

section \<open>Query messages\<close>

definition queryMarker :: string where
  "queryMarker = ''?OTR''"

text \<open>
  \<open>strconv.Atoi(string(c))\<close> for one byte \<open>c\<close>: the value of an ASCII decimal digit, an
  error for every other byte.
\<close>

definition atoiByte :: "char \<Rightarrow> nat option" where
  "atoiByte ch =
     (if ch = CHR ''0'' then Some 0 else if ch = CHR ''1'' then Some 1
      else if ch = CHR ''2'' then Some 2 else if ch = CHR ''3'' then Some 3
      else if ch = CHR ''4'' then Some 4 else if ch = CHR ''5'' then Some 5
      else if ch = CHR ''6'' then Some 6 else if ch = CHR ''7'' then Some 7
      else if ch = CHR ''8'' then Some 8 else if ch = CHR ''9'' then Some 9
      else None)"

fun versionDigits :: "string \<Rightarrow> nat list" where
  "versionDigits [] = []"
| "versionDigits (ch # rest) =
     (case atoiByte ch of None \<Rightarrow> versionDigits rest | Some v \<Rightarrow> v # versionDigits rest)"

definition parseOTRQueryMessage :: "string \<Rightarrow> nat list" where
  "parseOTRQueryMessage msg =
     (if take (length queryMarker) msg = queryMarker \<and> length msg > length queryMarker then
        (case drop (length queryMarker) msg of
           [] \<Rightarrow> []
         | v0 # vrest \<Rightarrow>
             let (ret, versions) = (if v0 = CHR ''?'' then ([1], vrest) else ([], v0 # vrest))
             in (case versions of
                   [] \<Rightarrow> ret
                 | w # _ \<Rightarrow> if w = CHR ''v'' then ret @ versionDigits versions else ret))
      else [])"

text \<open>
  The type \<open>policies\<close> and its method \<open>has\<close> are not among the source files: the policies
  of a conversation are the set of the policy flags it holds.
\<close>

definition has :: "policy set \<Rightarrow> policy \<Rightarrow> bool" where
  "has p c = (c \<in> p)"

text \<open>The loop of \<open>acceptOTRRequest\<close>: it returns at the first version that is allowed.\<close>

fun acceptVersions :: "policy set \<Rightarrow> nat list \<Rightarrow> otrVersion option \<times> bool" where
  "acceptVersions p [] = (None, False)"
| "acceptVersions p (v # vs) =
     (if v = 3 \<and> has p allowV3 then (Some otrV3, True)
      else if v = 2 \<and> has p allowV2 then (Some otrV2, True)
      else acceptVersions p vs)"

definition acceptOTRRequest :: "policy set \<Rightarrow> string \<Rightarrow> otrVersion option \<times> bool" where
  "acceptOTRRequest p msg = acceptVersions p (parseOTRQueryMessage msg)"

text \<open>
  \<open>sendDHCommit\<close> draws randomness and encrypts: it is the parameter \<open>sendDHCommit\<close>, called
  once the version is set.
\<close>

definition receiveQueryMessage ::
  "(Conversation \<Rightarrow> Conversation \<times> byte list \<times> error option) \<Rightarrow> Conversation \<Rightarrow> string
    \<Rightarrow> Conversation \<times> byte list \<times> error option" where
  "receiveQueryMessage sendDHCommit c msg =
     (case acceptOTRRequest (Policies c) msg of
        (v, ok) \<Rightarrow>
          if \<not> ok then (c, [], Some errInvalidVersion)
          else sendDHCommit (c\<lparr>version := v\<rparr>))"

definition queryMessage :: "Conversation \<Rightarrow> string" where
  "queryMessage c =
     ''?OTRv'' @ (if has (Policies c) allowV2 then ''2'' else [])
       @ (if has (Policies c) allowV3 then ''3'' else []) @ ''?''"

section \<open>The SMP state machine\<close>
















section \<open>Fragmentation\<close>

subsection \<open>Formatting and parsing of numbers\<close>









subsection \<open>Splitting a message\<close>










subsection \<open>Reassembly\<close>


definition emptyFragmentationContext :: fragmentationContext where
  "emptyFragmentationContext = \<lparr>frag = [], currentIndex = 0, currentLen = 0\<rparr>"









section \<open>Values used in the examples\<close>

text \<open>
  \<open>newConversation\<close> of the tests: a conversation of a given version with every other field
  at its zero value.
\<close>

definition newConversation :: "otrVersion \<Rightarrow> Conversation" where
  "newConversation v =
     \<lparr>version = Some v, msgState = plainText, ourInstanceTag = 0, theirInstanceTag = 0,
      ssid = replicate 8 0, ake = None,
      smp = \<lparr>smp_state = smpStateExpect1, secret = None, s1 = [], s2 = [], s3 = []\<rparr>,
      keys = \<lparr>ourKeyID = 0, theirKeyID = 0, ourCurrentDHKeys = \<lparr>pub = None, priv = None\<rparr>,
               ourPreviousDHKeys = \<lparr>pub = None, priv = None\<rparr>, theirCurrentDHPubKey = None\<rparr>,
      Policies = {}, fragmentSize = 0, fragmentationContext = emptyFragmentationContext\<rparr>"

definition emptyAkeKeys :: akeKeys where
  "emptyAkeKeys = \<lparr>akeKeys_c = replicate 16 0, akeKeys_m1 = replicate 32 0, akeKeys_m2 = replicate 32 0\<rparr>"

text \<open>The zero value of \<open>ake\<close>, as \<open>initAKE\<close> creates it.\<close>

definition emptyAke :: ake where
  "emptyAke =
     \<lparr>secretExponent = None, ourPublicValue = None, theirPublicValue = None,
      ake_r = replicate 16 0, encryptedGx = [], hashedGx = replicate 32 0,
      revealKey = emptyAkeKeys, sigKey = emptyAkeKeys, ake_state = authStateNone,
      ake_keys = \<lparr>ourKeyID = 0, theirKeyID = 0, ourCurrentDHKeys = \<lparr>pub = None, priv = None\<rparr>,
                   ourPreviousDHKeys = \<lparr>pub = None, priv = None\<rparr>, theirCurrentDHPubKey = None\<rparr>\<rparr>"

text \<open>
  An AKE context in the middle of a handshake: a secret exponent 5 with the public value
  \<open>2 ^ 5\<close>, the peer's public value 9, and \<open>r\<close>, keys and commitment of non-zero bytes.
\<close>

definition exampleAke :: ake where
  "exampleAke =
     emptyAke\<lparr>secretExponent := Some 5, ourPublicValue := Some 32, theirPublicValue := Some 9,
              ake_r := replicate 16 1, encryptedGx := [7, 7, 7], hashedGx := replicate 32 2,
              revealKey := \<lparr>akeKeys_c = replicate 16 3, akeKeys_m1 = replicate 32 3,
                            akeKeys_m2 = replicate 32 3\<rparr>,
              sigKey := \<lparr>akeKeys_c = replicate 16 4, akeKeys_m1 = replicate 32 4,
                         akeKeys_m2 = replicate 32 4\<rparr>,
              ake_state := authStateAwaitingSig\<rparr>"

definition exampleConversation :: Conversation where
  "exampleConversation = (newConversation otrV3)\<lparr>ake := Some exampleAke\<rparr>"

text \<open>A length field that exceeds the input that remains after it.\<close>

definition lengthFieldExceeds :: "byte list \<Rightarrow> bool" where
  "lengthFieldExceeds d = (4 \<le> length d \<and> length d - 4 < bytesToNat (take 4 d))"

text \<open>Zero values of the messages, as the \<open>process\<close> functions create them.\<close>

definition emptyDhCommit :: dhCommit where
  "emptyDhCommit = \<lparr>protocolVersion = 0, needInstanceTag = False, senderInstanceTag = 0,
      receiverInstanceTag = 0, gx = None, dhCommit_encryptedGx = [],
      dhCommit_hashedGx = replicate 32 0\<rparr>"

definition emptyRevealSig :: revealSig where
  "emptyRevealSig = \<lparr>protocolVersion = 0, needInstanceTag = False, senderInstanceTag = 0,
      receiverInstanceTag = 0, revealSig_r = replicate 16 0, revealSig_encryptedSig = [],
      revealSig_macSig = []\<rparr>"

definition emptySig :: sig where
  "emptySig = \<lparr>protocolVersion = 0, needInstanceTag = False, senderInstanceTag = 0,
      receiverInstanceTag = 0, sig_encryptedSig = [], sig_macSig = []\<rparr>"






section \<open>Properties of the wire codec\<close>

lemma extractData_exceeds: "lengthFieldExceeds d \<Longrightarrow> extractData d = (d, [], False)"
  by (simp add: lengthFieldExceeds_def extractData_def extractWord_def)

lemma extractMPI_exceeds: "lengthFieldExceeds d \<Longrightarrow> extractMPI d = ([], None, False)"
  by (simp add: lengthFieldExceeds_def extractMPI_def extractWord_def)

lemma extractMPI_one_byte: "extractMPI [0, 0, 0, 1, b] = ([], Some (int (unat b)), True)"
  by (simp add: extractMPI_def extractWord_def bytesToNat_def)

text \<open>
  Claim C3 fails on the DH-Key message: \<open>dhKey.deserialize\<close> discards what \<open>extractMPI\<close>
  leaves. On the MPI of 5 followed by the byte 255 the rest is not empty and the message
  is accepted with \<open>gy = 5\<close>, where the claim says it fails as corrupt; \<open>extractGx\<close>, which
  parses a single MPI as well, rejects the same bytes (the last part of
  \<open>deserialize_corrupt\<close> below).
\<close>

theorem dhKey_deserialize_accepts_trailing_bytes:
  "fst (extractMPI [0, 0, 0, 1, 5, 255]) = [255] \<and>
   dhKey_deserialize emptyDhKey [0, 0, 0, 1, 5, 255] = (emptyDhKey\<lparr>gy := Some 5\<rparr>, None)"
  by (simp add: dhKey_deserialize_def extractMPI_def extractWord_def bytesToNat_def lt_def gt_def
      g1_def pMinusTwo_def otrPrime_def deref_def)

theorem dhKey_deserialize_accepts_trailing_bytes_witness:
  "snd (dhKey_deserialize emptyDhKey [0, 0, 0, 1, 5, 255]) = None
   \<and> gy (fst (dhKey_deserialize emptyDhKey [0, 0, 0, 1, 5, 255])) = Some 5"
  using dhKey_deserialize_accepts_trailing_bytes by simp

text \<open>
  The other parts of the claim hold: deserialization of an AKE wire message fails with
  its corrupt-message error whenever a length field exceeds the remaining input (the MPI
  of DH-Key, either DATA field of DH-Commit and of Reveal-Signature, the DATA field of
  Signature) or the MAC, which is what remains after the encrypted signature, is not 20
  bytes long (Reveal-Signature and Signature); \<open>extractGx\<close> rejects bytes after its single
  MPI. A message that fails leaves the Reveal-Signature and the Signature receiver as
  they were.
\<close>

theorem deserialize_corrupt:
  "(lengthFieldExceeds msg \<longrightarrow>
      snd (dhKey_deserialize k msg) = Some (ErrorsNew ''otr: corrupt DH key message''))
   \<and> (lengthFieldExceeds msg \<longrightarrow>
      snd (dhCommit_deserialize dc msg) = Some (ErrorsNew ''otr: corrupt DH commit message''))
   \<and> (extractData msg = (rest1, x1, True) \<and> lengthFieldExceeds rest1 \<longrightarrow>
      snd (dhCommit_deserialize dc msg) = Some (ErrorsNew ''otr: corrupt DH commit message''))
   \<and> (lengthFieldExceeds msg \<longrightarrow>
      revealSig_deserialize rs msg = (rs, Some (ErrorsNew ''otr: corrupt reveal signature message'')))
   \<and> (extractData msg = (rest1, x1, True) \<and> lengthFieldExceeds rest1 \<longrightarrow>
      revealSig_deserialize rs msg = (rs, Some (ErrorsNew ''otr: corrupt reveal signature message'')))
   \<and> (extractData msg = (rest1, x1, True) \<and> extractData rest1 = (mac, x2, True) \<and> length mac \<noteq> 20 \<longrightarrow>
      revealSig_deserialize rs msg = (rs, Some (ErrorsNew ''otr: corrupt reveal signature message'')))
   \<and> (lengthFieldExceeds msg \<longrightarrow>
      sig_deserialize sg msg = (sg, Some (ErrorsNew ''otr: corrupt signature message'')))
   \<and> (extractData msg = (mac, x2, True) \<and> length mac \<noteq> 20 \<longrightarrow>
      sig_deserialize sg msg = (sg, Some (ErrorsNew ''otr: corrupt signature message'')))
   \<and> (extractMPI msg = (rest1, v, True) \<and> rest1 \<noteq> [] \<longrightarrow>
      extractGx msg = (v, Some (OtrError ''gx corrupt after decryption'')))"
  by (auto simp: dhKey_deserialize_def dhCommit_deserialize_def revealSig_deserialize_def
      sig_deserialize_def extractGx_def extractData_exceeds extractMPI_exceeds Let_def)

theorem deserialize_corrupt_witness:
  "lengthFieldExceeds [0, 0, 0, 5, 1]
   \<and> snd (dhKey_deserialize emptyDhKey [0, 0, 0, 5, 1]) = Some (ErrorsNew ''otr: corrupt DH key message'')
   \<and> snd (dhCommit_deserialize emptyDhCommit [0, 0, 0, 5, 1]) = Some (ErrorsNew ''otr: corrupt DH commit message'')
   \<and> revealSig_deserialize emptyRevealSig [0, 0, 0, 5, 1] = (emptyRevealSig, Some (ErrorsNew ''otr: corrupt reveal signature message''))
   \<and> sig_deserialize emptySig [0, 0, 0, 5, 1] = (emptySig, Some (ErrorsNew ''otr: corrupt signature message''))
   \<and> extractData [0, 0, 0, 1, 9, 0, 0, 0, 9, 1] = ([0, 0, 0, 9, 1], [9], True)
   \<and> lengthFieldExceeds [0, 0, 0, 9, 1]
   \<and> snd (dhCommit_deserialize emptyDhCommit [0, 0, 0, 1, 9, 0, 0, 0, 9, 1]) = Some (ErrorsNew ''otr: corrupt DH commit message'')
   \<and> revealSig_deserialize emptyRevealSig [0, 0, 0, 1, 9, 0, 0, 0, 9, 1] = (emptyRevealSig, Some (ErrorsNew ''otr: corrupt reveal signature message''))
   \<and> extractData [0, 0, 0, 1, 9, 0, 0, 0, 1, 7, 1, 2, 3] = ([0, 0, 0, 1, 7, 1, 2, 3], [9], True)
   \<and> extractData [0, 0, 0, 1, 7, 1, 2, 3] = ([1, 2, 3], [7], True)
   \<and> length [1, 2, 3 :: byte] \<noteq> 20
   \<and> revealSig_deserialize emptyRevealSig [0, 0, 0, 1, 9, 0, 0, 0, 1, 7, 1, 2, 3] = (emptyRevealSig, Some (ErrorsNew ''otr: corrupt reveal signature message''))
   \<and> sig_deserialize emptySig [0, 0, 0, 1, 7, 1, 2, 3] = (emptySig, Some (ErrorsNew ''otr: corrupt signature message''))
   \<and> extractMPI [0, 0, 0, 1, 5, 255] = ([255], Some 5, True)
   \<and> extractGx [0, 0, 0, 1, 5, 255] = (Some 5, Some (OtrError ''gx corrupt after decryption''))"
proof -
  have e1: "lengthFieldExceeds [0, 0, 0, 5, 1]"
    by (simp add: lengthFieldExceeds_def bytesToNat_def)
  have e2: "extractData [0, 0, 0, 1, 9, 0, 0, 0, 9, 1] = ([0, 0, 0, 9, 1], [9], True)"
    and e2': "lengthFieldExceeds [0, 0, 0, 9, 1]"
    by (simp_all add: lengthFieldExceeds_def bytesToNat_def extractData_def extractWord_def)
  have e3: "extractData [0, 0, 0, 1, 9, 0, 0, 0, 1, 7, 1, 2, 3] = ([0, 0, 0, 1, 7, 1, 2, 3], [9], True)"
    and e4: "extractData [0, 0, 0, 1, 7, 1, 2, 3] = ([1, 2, 3], [7], True)"
    by (simp_all add: bytesToNat_def extractData_def extractWord_def)
  have e5: "extractMPI [0, 0, 0, 1, 5, 255] = ([255], Some 5, True)"
    by (simp add: bytesToNat_def extractMPI_def extractWord_def)
  note t1 = deserialize_corrupt [of "[0, 0, 0, 5, 1]" emptyDhKey emptyDhCommit "[]" "[]" emptyRevealSig "[]" "[]" emptySig "None"]
  note t2 = deserialize_corrupt [of "[0, 0, 0, 1, 9, 0, 0, 0, 9, 1]" emptyDhKey emptyDhCommit "[0, 0, 0, 9, 1]" "[9]" emptyRevealSig "[]" "[]" emptySig "None"]
  note t3 = deserialize_corrupt [of "[0, 0, 0, 1, 9, 0, 0, 0, 1, 7, 1, 2, 3]" emptyDhKey emptyDhCommit "[0, 0, 0, 1, 7, 1, 2, 3]" "[9]" emptyRevealSig "[1, 2, 3]" "[7]" emptySig "None"]
  note t4 = deserialize_corrupt [of "[0, 0, 0, 1, 7, 1, 2, 3]" emptyDhKey emptyDhCommit "[]" "[]" emptyRevealSig "[1, 2, 3]" "[7]" emptySig "None"]
  note t5 = deserialize_corrupt [of "[0, 0, 0, 1, 5, 255]" emptyDhKey emptyDhCommit "[255]" "[]" emptyRevealSig "[]" "[]" emptySig "Some 5"]
  show ?thesis
    using e1 e2 e2' e3 e4 e5 t1 t2 t3 t4 t5 by simp
qed

section \<open>Properties of the DH-Key processing\<close>

text \<open>
  Claim C7: for every received DH-Key message whose public value \<open>gy\<close> lies outside
  \<open>[2, p-2]\<close>, \<open>processDHKey\<close> returns the error "DH value out of range" and the
  conversation, with it the stored public value of the peer, is as it was.
\<close>

theorem processDHKey_out_of_range:
  assumes "extractMPI msg = (rest, Some y, True)" and "y < 2 \<or> otrPrime - 2 < y"
  shows "processDHKey c msg = Inr (c, False, Some (ErrorsNew ''otr: DH value out of range''))"
  using assms
  by (auto simp: processDHKey_def dhKey_deserialize_def lt_def gt_def g1_def pMinusTwo_def deref_def)

theorem processDHKey_out_of_range_witness:
  "extractMPI [0, 0, 0, 1, 1] = ([], Some 1, True) \<and> ((1::int) < 2 \<or> otrPrime - 2 < 1) \<and>
   processDHKey exampleConversation [0, 0, 0, 1, 1]
     = Inr (exampleConversation, False, Some (ErrorsNew ''otr: DH value out of range''))"
proof -
  have m: "extractMPI [0, 0, 0, 1, 1] = ([], Some 1, True)"
    using extractMPI_one_byte [of 1] by simp
  show ?thesis
    using processDHKey_out_of_range [OF m, of exampleConversation] m by simp
qed

text \<open>
  Claim C9: once \<open>theirPublicValue\<close> of the AKE context is set, \<open>processDHKey\<close> of a
  DH-Key message that carries a group element leaves the conversation, with it the stored
  value, as it was, and reports whether the incoming \<open>gy\<close> equals the stored value.
\<close>

theorem processDHKey_keeps_theirPublicValue:
  assumes "ake c = Some a" and "theirPublicValue a = Some t"
    and "extractMPI msg = (rest, Some y, True)" and "2 \<le> y" and "y \<le> otrPrime - 2"
  shows "processDHKey c msg = Inr (c, (t = y), None)"
  using assms
  by (auto simp: processDHKey_def dhKey_deserialize_def lt_def gt_def g1_def pMinusTwo_def
      deref_def isGroupElement_def eq_def)

theorem processDHKey_keeps_theirPublicValue_witness:
  "ake exampleConversation = Some exampleAke \<and> theirPublicValue exampleAke = Some 9 \<and>
   extractMPI [0, 0, 0, 1, 7] = ([], Some 7, True) \<and> (2::int) \<le> 7 \<and> 7 \<le> otrPrime - 2 \<and>
   processDHKey exampleConversation [0, 0, 0, 1, 7] = Inr (exampleConversation, False, None) \<and>
   processDHKey exampleConversation [0, 0, 0, 1, 9] = Inr (exampleConversation, True, None)"
proof -
  have a: "ake exampleConversation = Some exampleAke"
    by (simp add: exampleConversation_def)
  have t: "theirPublicValue exampleAke = Some 9"
    by (simp add: exampleAke_def)
  have m7: "extractMPI [0, 0, 0, 1, 7] = ([], Some 7, True)"
    using extractMPI_one_byte [of 7] by simp
  have m9: "extractMPI [0, 0, 0, 1, 9] = ([], Some 9, True)"
    using extractMPI_one_byte [of 9] by simp
  have b7: "(2::int) \<le> 7" "7 \<le> otrPrime - 2"
    by (simp_all add: otrPrime_def)
  have b9: "(2::int) \<le> 9" "9 \<le> otrPrime - 2"
    by (simp_all add: otrPrime_def)
  show ?thesis
    using processDHKey_keeps_theirPublicValue [OF a t m7 b7]
      processDHKey_keeps_theirPublicValue [OF a t m9 b9] a t m7 b7
    by simp
qed

section \<open>Properties of the data message body\<close>

text \<open>
  Claim C10 fails on the empty input: \<open>dataMsg.deserialize\<close> reads \<open>msg[0]\<close> before any
  check of the length and panics with an index out of range instead of returning an
  error, whatever the capacity of the slice.
\<close>

theorem dataMsg_deserialize_empty_panics:
  "dataMsg_deserialize \<lparr>nul = 0, tlvs = []\<rparr> [] spare = Inl IndexOutOfRange"
  by (simp add: dataMsg_deserialize_def)

text \<open>
  A TLV header cut short is sliced before the length check: without spare capacity the
  slice expression panics; with spare capacity the header is read from the spare bytes
  and the length check then returns the error.
\<close>

lemma dataMsg_deserialize_short_header_panics:
  "dataMsg_deserialize \<lparr>nul = 0, tlvs = []\<rparr> [0, 0, 1] [] = Inl SliceBoundsOutOfRange"
  by (simp add: dataMsg_deserialize_def dataMsg_loop.simps)

lemma dataMsg_deserialize_short_header_spare:
  "dataMsg_deserialize \<lparr>nul = 0, tlvs = []\<rparr> [0, 0, 1] [0, 0, 0]
     = Inr (\<lparr>nul = 0, tlvs = []\<rparr>, Some (ErrorsNew ''otr: wrong tlv length''))"
  by (simp add: dataMsg_deserialize_def dataMsg_loop.simps bytesToNat_def)

lemma dataMsg_deserialize_one_tlv:
  "dataMsg_deserialize \<lparr>nul = 0, tlvs = []\<rparr> [0, 0, 1, 0, 2, 7, 8] []
     = Inr (\<lparr>nul = 0, tlvs = [\<lparr>tlvType = 1, tlvLength = 2, tlvValue = [7, 8]\<rparr>]\<rparr>, None)"
  by (simp add: dataMsg_deserialize_def dataMsg_loop.simps bytesToNat_def)

section \<open>Properties of the version selection\<close>

text \<open>
  Claim C2 fails on the query \<open>?OTRv23?\<close> with both versions allowed: \<open>acceptOTRRequest\<close>
  returns at the first advertised version that is allowed, which is version 2, not at the
  highest.
\<close>

theorem acceptOTRRequest_first_not_highest:
  "acceptOTRRequest {allowV2, allowV3} ''?OTRv23?'' = (Some otrV2, True)"
  by (simp add: acceptOTRRequest_def parseOTRQueryMessage_def queryMarker_def atoiByte_def has_def)

text \<open>Without an allowed version among the advertised ones the query is refused.\<close>

lemma acceptVersions_none:
  "(\<forall>v \<in> set vs. \<not> (v = 3 \<and> has p allowV3) \<and> \<not> (v = 2 \<and> has p allowV2))
    \<Longrightarrow> acceptVersions p vs = (None, False)"
  by (induction vs) auto

lemma receiveQueryMessage_invalid_version:
  assumes "\<forall>v \<in> set (parseOTRQueryMessage msg).
             \<not> (v = 3 \<and> has (Policies c) allowV3) \<and> \<not> (v = 2 \<and> has (Policies c) allowV2)"
  shows "receiveQueryMessage sendDHCommit c msg = (c, [], Some errInvalidVersion)"
  using acceptVersions_none [OF assms]
  by (simp add: receiveQueryMessage_def acceptOTRRequest_def)

section \<open>Properties of the end of a conversation\<close>

text \<open>
  Claim C4 fails on a conversation that ends in the middle of a handshake: \<open>End\<close> wipes the
  DH keys of the key management and never touches the AKE context, so the secret
  exponent still reads 5 and \<open>r\<close> still reads its bytes.
\<close>

theorem End_leaves_ake_secrets:
  "ake (fst (End csdm exampleConversation)) = Some exampleAke \<and>
   secretExponent exampleAke = Some 5 \<and> ake_r exampleAke = replicate 16 1"
  by (simp add: End_def exampleConversation_def newConversation_def exampleAke_def Let_def)

section \<open>Properties of the persistence of the AKE context\<close>

text \<open>
  Claim C5 fails on an AKE context with every optional field set: \<open>GobEncode\<close> writes \<open>r\<close>
  after the three integers and \<open>GobDecode\<close> has no read of it, so the fourth read meets the
  array \<open>r\<close> where it expects the byte slice \<open>encryptedGx\<close> and decoding stops with an
  error.
\<close>

theorem GobDecode_after_GobEncode_fails:
  "ake_GobDecode emptyAke (fst (ake_GobEncode exampleAke))
     = (emptyAke\<lparr>secretExponent := Some 5, ourPublicValue := Some 32, theirPublicValue := Some 9\<rparr>,
        Some (GobError ''gob: type mismatch''))"
  by (simp add: ake_GobDecode_def ake_GobEncode_def exampleAke_def emptyAke_def encodeOptional_def
      decodeBigInt_def decodeByteSlice_def)

text \<open>Whatever the stream holds, \<open>GobDecode\<close> leaves \<open>r\<close> as it was.\<close>

lemma GobDecode_never_writes_r: "ake_r (fst (ake_GobDecode c buf)) = ake_r c"
  by (simp add: ake_GobDecode_def Let_def split: sum.splits prod.splits)

section \<open>Properties of the SMP state machine\<close>



section \<open>Properties of the fragmentation\<close>

subsection \<open>Numbers and fields read back as written\<close>



















subsection \<open>The instance-tag filter\<close>




subsection \<open>Fragmenting and reassembling\<close>












end
